theory Spec2Isabelle
  imports Complex_Main
begin

section \<open>The training harness of \<open>chem_tensorflow.py\<close>\<close>

text \<open>
  A shallow embedding of class \<open>ChemModel\<close>. Python exceptions are values of
  \<open>py_error\<close> on the left of a sum; the object's fields that a method updates are
  passed in and returned. Floating-point numbers are read as real numbers (no
  rounding, no \<open>nan\<close>); the only non-finite float the source writes down itself,
  \<open>float("+inf")\<close>, has a constructor of its own. Indices and counts that the data
  format defines as non-negative (vertex numbers, edge types, graph counts, epoch
  numbers) are natural numbers. Console output, the run identifier, the file
  paths and the parameter file are left out; the log file is its contents.
\<close>

subsection \<open>Errors\<close>

datatype py_error =
    Exception string
  | ValueError
  | IndexError
  | ZeroDivisionError
  | TypeError

subsection \<open>Parameters: \<open>default_params\<close> and their resolution in \<open>__init__\<close>\<close>

text \<open>The values a decoded JSON object can hold under the keys of the parameter
  dictionary.\<close>

datatype pyval = PInt int | PFloat real | PBool bool | PStr string

type_synonym pydict = "string \<rightharpoonup> pyval"

definition default_params :: pydict where
  "default_params =
     [''num_epochs'' \<mapsto> PInt 3000,
      ''patience'' \<mapsto> PInt 25,
      ''learning_rate'' \<mapsto> PFloat (1 / 10000),
      ''clamp_gradient_norm'' \<mapsto> PFloat 1,
      ''dropout_keep_prob'' \<mapsto> PFloat 1,
      ''hidden_size'' \<mapsto> PInt 100,
      ''num_timesteps'' \<mapsto> PInt 4,
      ''tie_fwd_bkwd'' \<mapsto> PBool True,
      ''task_id'' \<mapsto> PInt 0]"

text \<open>\<open>dict.update(other)\<close>: every key of \<open>other\<close> is stored, with its value
  in \<open>other\<close>.\<close>

definition dict_update :: "pydict \<Rightarrow> pydict \<Rightarrow> pydict" where
  "dict_update d other = (\<lambda>k. case other k of Some v \<Rightarrow> Some v | None \<Rightarrow> d k)"

text \<open>
  Lines 42--51 of \<open>__init__\<close>. \<open>config_file\<close> is the decoded contents of the file
  named by \<open>--config-file\<close> (\<open>None\<close> when the option is absent), \<open>config\<close> the
  decoded \<open>--config\<close> string.
\<close>

definition collect_params :: "pydict \<Rightarrow> pydict option \<Rightarrow> pydict option \<Rightarrow> pydict" where
  "collect_params defaults config_file config =
     (let params = defaults;
          params = (case config_file of None \<Rightarrow> params | Some f \<Rightarrow> dict_update params f);
          params = (case config of None \<Rightarrow> params | Some c \<Rightarrow> dict_update params c)
      in params)"

subsection \<open>The extension points of the base class\<close>

text \<open>Each of the five methods consists of a single \<open>raise Exception(...)\<close>.\<close>

definition process_raw_graphs :: "'raw \<Rightarrow> py_error + 'data" where
  "process_raw_graphs raw_data = Inl (Exception ''Models have to implement process_raw_graphs!'')"

definition gated_regression :: "'tensor \<Rightarrow> py_error + 'tensor" where
  "gated_regression last_h = Inl (Exception ''Models have to implement gated_regression!'')"

definition prepare_specific_model :: "unit \<Rightarrow> py_error + unit" where
  "prepare_specific_model u = Inl (Exception ''Models have to implement prepare_specific_model!'')"

definition compute_final_node_representations :: "unit \<Rightarrow> py_error + 'tensor" where
  "compute_final_node_representations u =
     Inl (Exception ''Models have to implement compute_final_node_representations!'')"

definition make_minibatch_iterator :: "'data \<Rightarrow> bool \<Rightarrow> py_error + 'batch list" where
  "make_minibatch_iterator data is_training =
     Inl (Exception ''Models have to implement make_minibatch_iterator!'')"

text \<open>
  The methods below read five of the resolved parameters, each under its key in
  \<open>self.params\<close>. They are passed with the types at which the methods use them:
  \<open>num_epochs\<close> bounds a \<open>range\<close>, \<open>patience\<close> is compared with a difference of
  epoch numbers, \<open>tie_fwd_bkwd\<close> is tested for truth, \<open>task_id\<close> indexes a list
  (so it may be negative), \<open>dropout_keep_prob\<close> is fed to the runtime.
\<close>

record params =
  num_epochs :: nat
  patience :: int
  dropout_keep_prob :: real
  tie_fwd_bkwd :: bool
  task_id :: int

subsection \<open>Loading data: \<open>load_data\<close>\<close>

text \<open>
  A decoded graph record: \<open>g['graph']\<close> is a list of edges \<open>[source, edge_type, target]\<close>,
  \<open>g['node_features']\<close> holds one feature vector per node.
\<close>

record raw_graph =
  graph :: "(nat \<times> nat \<times> nat) list"
  node_features :: "real list list"

text \<open>The fields of the object that \<open>load_data\<close> reads and updates.\<close>

record data_fields =
  max_num_vertices :: nat
  num_edge_types :: nat
  annotation_size :: nat

text \<open>The methods a concrete model overrides and the harness dispatches to through
  \<open>self\<close>.\<close>

record ('data, 'batch) model =
  m_process_raw_graphs :: "raw_graph list \<Rightarrow> py_error + 'data"
  m_make_minibatch_iterator :: "'data \<Rightarrow> bool \<Rightarrow> py_error + 'batch list"

definition ChemModel :: "('data, 'batch) model" where
  "ChemModel = \<lparr>m_process_raw_graphs = process_raw_graphs,
                m_make_minibatch_iterator = make_minibatch_iterator\<rparr>"

text \<open>Python's \<open>max\<close> of a list raises \<open>ValueError\<close> on the empty list.\<close>

definition py_max :: "nat list \<Rightarrow> py_error + nat" where
  "py_max xs = (case xs of [] \<Rightarrow> Inl ValueError | x # ys \<Rightarrow> Inr (fold max ys x))"

definition edge_vertices :: "raw_graph \<Rightarrow> nat list" where
  "edge_vertices g = concat (map (\<lambda>(u, t, v). [u, v]) (graph g))"

definition edge_types :: "raw_graph \<Rightarrow> nat list" where
  "edge_types g = map (\<lambda>(u, t, v). t) (graph g)"

text \<open>The loop of lines 82--84 over the records; the pair is
  \<open>(self.max_num_vertices, num_fwd_edge_types)\<close>.\<close>

fun scan_graphs :: "raw_graph list \<Rightarrow> nat \<times> nat \<Rightarrow> py_error + (nat \<times> nat)" where
  "scan_graphs [] (mnv, nfwd) = Inr (mnv, nfwd)"
| "scan_graphs (g # gs) (mnv, nfwd) =
     (case py_max (edge_vertices g) of
        Inl e \<Rightarrow> Inl e
      | Inr mv \<Rightarrow>
          (case py_max (edge_types g) of
             Inl e \<Rightarrow> Inl e
           | Inr mt \<Rightarrow> scan_graphs gs (max mnv mv, max nfwd mt)))"

text \<open>Lines 76--78: \<open>data[:restrict]\<close> when \<open>--restrict_data\<close> is given and positive.\<close>

definition restrict_data :: "int option \<Rightarrow> 'a list \<Rightarrow> 'a list" where
  "restrict_data restrict data =
     (case restrict of
        None \<Rightarrow> data
      | Some r \<Rightarrow> if r > 0 then take (nat r) data else data)"

text \<open>
  \<open>load_data\<close>: \<open>data0\<close> is the decoded contents of the file, \<open>restrict\<close> the
  value of \<open>--restrict_data\<close>. The result is the value returned by the model's
  \<open>process_raw_graphs\<close> and the updated fields.
\<close>

definition load_data ::
  "('data, 'batch) model \<Rightarrow> params \<Rightarrow> int option \<Rightarrow> data_fields \<Rightarrow> raw_graph list
     \<Rightarrow> py_error + ('data \<times> data_fields)" where
  "load_data m ps restrict self data0 =
     (let data = restrict_data restrict data0 in
      case scan_graphs data (max_num_vertices self, 0) of
        Inl e \<Rightarrow> Inl e
      | Inr (mnv, num_fwd_edge_types) \<Rightarrow>
          (let net = max (num_edge_types self)
                         (num_fwd_edge_types * (if tie_fwd_bkwd ps then 1 else 2)) in
           case data of
             [] \<Rightarrow> Inl IndexError
           | g0 # _ \<Rightarrow>
               (case node_features g0 of
                  [] \<Rightarrow> Inl IndexError
                | f0 # _ \<Rightarrow>
                    (let self' = \<lparr>max_num_vertices = mnv,
                                   num_edge_types = net,
                                   annotation_size = max (annotation_size self) (length f0)\<rparr> in
                     case m_process_raw_graphs m data of
                       Inl e \<Rightarrow> Inl e
                     | Inr processed \<Rightarrow> Inr (processed, self')))))"

text \<open>Lines 57--59 of \<open>__init__\<close>.\<close>

definition initial_fields :: data_fields where
  "initial_fields = \<lparr>max_num_vertices = 0, num_edge_types = 0, annotation_size = 0\<rparr>"

text \<open>Successive calls of \<open>load_data\<close> on one object, one per decoded file;
  \<open>__init__\<close> makes two of them, for the training and the validation file.\<close>

fun load_data_calls ::
  "('data, 'batch) model \<Rightarrow> params \<Rightarrow> int option \<Rightarrow> data_fields \<Rightarrow> raw_graph list list
     \<Rightarrow> py_error + ('data list \<times> data_fields)" where
  "load_data_calls m ps restrict self [] = Inr ([], self)"
| "load_data_calls m ps restrict self (d # ds) =
     (case load_data m ps restrict self d of
        Inl e \<Rightarrow> Inl e
      | Inr (p, self') \<Rightarrow>
          (case load_data_calls m ps restrict self' ds of
             Inl e \<Rightarrow> Inl e
           | Inr (rest, self'') \<Rightarrow> Inr (p # rest, self'')))"

text \<open>What the claims about \<open>load_data\<close> speak of: the largest edge type among the
  records a call keeps, and the length of the first feature vector of its first
  record.\<close>

definition max_fwd_edge_type :: "raw_graph list \<Rightarrow> nat" where
  "max_fwd_edge_type data = Max (set (concat (map edge_types data)))"

definition first_feature_length :: "raw_graph list \<Rightarrow> nat" where
  "first_feature_length data = length (hd (node_features (hd data)))"

subsection \<open>The tensor runtime\<close>

text \<open>
  The outputs \<open>run_epoch\<close> can ask the session for: \<open>self.ops['loss']\<close>,
  \<open>self.ops['accuracy']\<close> and \<open>self.ops['train_step']\<close>.
\<close>

datatype fetch = Loss | Accuracy | TrainStep

text \<open>
  A minibatch is the feed dictionary handed to \<open>sess.run\<close>: the entry of the
  \<open>num_graphs\<close> placeholder, the entry of the \<open>dropout_keep_prob\<close> placeholder
  (absent until \<open>run_epoch\<close> stores it) and the remaining entries, which only the
  concrete model and the runtime look at.
\<close>

record 'x batch_data =
  feed_num_graphs :: nat
  feed_dropout_keep_prob :: "real option"
  feed_inputs :: 'x

text \<open>
  The session is not part of the program. It is a parameter: \<open>'sess\<close> is the state of
  the trainable variables, \<open>loss_value\<close> and \<open>accuracy_value\<close> evaluate the two
  tensors under a feed, \<open>apply_train_step\<close> is the parameter update. \<open>sess_run\<close> is
  the interface the program relies on: it returns one value per requested output
  (\<open>None\<close> for the update operation) and changes the variables only when the update
  operation is among the requested outputs.
\<close>

record ('sess, 'x) runtime =
  loss_value :: "'sess \<Rightarrow> 'x batch_data \<Rightarrow> real"
  accuracy_value :: "'sess \<Rightarrow> 'x batch_data \<Rightarrow> real"
  apply_train_step :: "'sess \<Rightarrow> 'x batch_data \<Rightarrow> 'sess"

definition fetch_value :: "('sess, 'x) runtime \<Rightarrow> 'sess \<Rightarrow> 'x batch_data \<Rightarrow> fetch \<Rightarrow> real option" where
  "fetch_value rt sess feed f =
     (case f of
        Loss \<Rightarrow> Some (loss_value rt sess feed)
      | Accuracy \<Rightarrow> Some (accuracy_value rt sess feed)
      | TrainStep \<Rightarrow> None)"

definition sess_run ::
  "('sess, 'x) runtime \<Rightarrow> 'sess \<Rightarrow> fetch list \<Rightarrow> 'x batch_data \<Rightarrow> real option list \<times> 'sess" where
  "sess_run rt sess fetch_list feed =
     (map (fetch_value rt sess feed) fetch_list,
      if TrainStep \<in> set fetch_list then apply_train_step rt sess feed else sess)"

subsection \<open>One pass over a data set: \<open>run_epoch\<close>\<close>

definition chemical_accuracy :: "real list" where
  "chemical_accuracy =
     [66513725 / 1000000000, 12235489 / 1000000000, 71939046 / 1000000000,
      33730778 / 1000000000, 33486113 / 1000000000, 4278493 / 1000000000,
      1330901 / 1000000000, 4165489 / 1000000000, 4128926 / 1000000000,
      409976 / 100000000, 4527465 / 1000000000, 12292586 / 1000000000,
      37467458 / 1000000000]"

text \<open>Indexing a Python list: a negative index counts from the end, an index out
  of range raises \<open>IndexError\<close>.\<close>

definition py_index :: "'a list \<Rightarrow> int \<Rightarrow> py_error + 'a" where
  "py_index xs i =
     (if 0 \<le> i \<and> i < int (length xs) then Inr (xs ! nat i)
      else if i < 0 \<and> - int (length xs) \<le> i then Inr (xs ! nat (int (length xs) + i))
      else Inl IndexError)"

text \<open>\<open>result[i] * num_graphs\<close>: the entry must exist and be a number.\<close>

definition result_number :: "real option list \<Rightarrow> int \<Rightarrow> py_error + real" where
  "result_number result i =
     (case py_index result i of
        Inl e \<Rightarrow> Inl e
      | Inr None \<Rightarrow> Inl TypeError
      | Inr (Some v) \<Rightarrow> Inr v)"

text \<open>Lines 147--152: the feed and the list of requested outputs for one
  minibatch.\<close>

definition minibatch_request ::
  "params \<Rightarrow> bool \<Rightarrow> 'x batch_data \<Rightarrow> 'x batch_data \<times> fetch list" where
  "minibatch_request ps is_training batch =
     (if is_training
      then (batch\<lparr>feed_dropout_keep_prob := Some (dropout_keep_prob ps)\<rparr>,
            [Loss, Accuracy, TrainStep])
      else (batch\<lparr>feed_dropout_keep_prob := Some 1\<rparr>, [Loss, Accuracy]))"

text \<open>
  The loop of lines 144--155 over the minibatches, in the order in which the
  iterator hands them over. The accumulator is
  \<open>(loss, accuracy, processed_graphs)\<close> together with the session.
\<close>

fun run_batches ::
  "('sess, 'x) runtime \<Rightarrow> params \<Rightarrow> bool \<Rightarrow> 'x batch_data list
     \<Rightarrow> (real \<times> real \<times> nat) \<times> 'sess \<Rightarrow> py_error + ((real \<times> real \<times> nat) \<times> 'sess)" where
  "run_batches rt ps is_training [] acc = Inr acc"
| "run_batches rt ps is_training (batch # rest) ((loss, accuracy, processed_graphs), sess) =
     (let num_graphs = feed_num_graphs batch;
          processed_graphs = processed_graphs + num_graphs;
          request = minibatch_request ps is_training batch;
          answer = sess_run rt sess (snd request) (fst request)
      in case result_number (fst answer) 0 of
           Inl e \<Rightarrow> Inl e
         | Inr r0 \<Rightarrow>
             (case result_number (fst answer) 1 of
                Inl e \<Rightarrow> Inl e
              | Inr r1 \<Rightarrow>
                  run_batches rt ps is_training rest
                    ((loss + r0 * real num_graphs,
                      accuracy + r1 * real num_graphs,
                      processed_graphs), snd answer)))"

text \<open>
  Wall-clock time is an input: \<open>clock i\<close> is the value of the \<open>i\<close>-th call of
  \<open>time.time()\<close> in the run, and every method that reads the clock takes the number
  of readings made so far and returns the new number. A division whose divisor is
  zero is \<open>ZeroDivisionError\<close>, as it is for Python's own numbers (the \<open>inf\<close> and
  \<open>nan\<close> that numpy scalars return instead are not values of the model). The
  quotients printed as progress inside the loop are console output.

  \<open>run_epoch\<close> returns the tuple
  \<open>(loss, accuracy, error_ratio, instance_per_sec)\<close>.
\<close>

type_synonym epoch_results = "real \<times> real \<times> real \<times> real"

definition run_epoch ::
  "('data, 'x batch_data) model \<Rightarrow> ('sess, 'x) runtime \<Rightarrow> (nat \<Rightarrow> real) \<Rightarrow> params
     \<Rightarrow> 'sess \<times> nat \<Rightarrow> 'data \<Rightarrow> bool \<Rightarrow> py_error + (epoch_results \<times> ('sess \<times> nat))" where
  "run_epoch m rt clock ps world data is_training =
     (let sess = fst world; ticks = snd world;
          start_time = clock ticks
      in case m_make_minibatch_iterator m data is_training of
           Inl e \<Rightarrow> Inl e
         | Inr batches \<Rightarrow>
             (case run_batches rt ps is_training batches ((0, 0, 0), sess) of
                Inl e \<Rightarrow> Inl e
              | Inr ((loss, accuracy, processed_graphs), sess') \<Rightarrow>
                  if processed_graphs = 0 then Inl ZeroDivisionError
                  else
                    (let accuracy = accuracy / real processed_graphs;
                         loss = loss / real processed_graphs
                     in case py_index chemical_accuracy (task_id ps) of
                          Inl e \<Rightarrow> Inl e
                        | Inr reference \<Rightarrow>
                            (let error_ratio = accuracy / reference;
                                 elapsed = clock (ticks + 1) - start_time
                             in if elapsed = 0 then Inl ZeroDivisionError
                                else Inr ((loss, accuracy, error_ratio,
                                           real processed_graphs / elapsed),
                                          (sess', ticks + 2))))))"

text \<open>What the claim about the aggregates speaks of: the loss and the accuracy the
  session returns for each minibatch of a pass, in order, starting from session
  state \<open>sess\<close>.\<close>

fun batch_results ::
  "('sess, 'x) runtime \<Rightarrow> params \<Rightarrow> bool \<Rightarrow> 'sess \<Rightarrow> 'x batch_data list \<Rightarrow> (real \<times> real) list" where
  "batch_results rt ps is_training sess [] = []"
| "batch_results rt ps is_training sess (batch # rest) =
     (let request = minibatch_request ps is_training batch
      in (loss_value rt sess (fst request), accuracy_value rt sess (fst request))
           # batch_results rt ps is_training
               (snd (sess_run rt sess (snd request) (fst request))) rest)"

definition weighted_mean :: "real list \<Rightarrow> nat list \<Rightarrow> real" where
  "weighted_mean values counts =
     (\<Sum>(v, n) \<leftarrow> zip values counts. v * real n) / real (sum_list counts)"

subsection \<open>The training loop: \<open>train\<close>\<close>

text \<open>\<open>best_val_acc\<close> starts as \<open>float("+inf")\<close> and afterwards holds validation
  accuracies.\<close>

datatype best_acc = PosInf | Finite real

fun less_than_best :: "real \<Rightarrow> best_acc \<Rightarrow> bool" where
  "less_than_best v PosInf = True"
| "less_than_best v (Finite b) = (v < b)"

record log_entry =
  epoch :: nat
  time :: real
  train_results :: epoch_results
  valid_results :: epoch_results
  valid_error_rate :: real

text \<open>
  The variables of \<open>train\<close> that change from one epoch to the next: the session
  with the number of clock readings made, the list \<open>log_to_save\<close>, the contents
  of the log file, and the two early-stopping variables.
\<close>

record 'sess train_state =
  world :: "'sess \<times> nat"
  log_to_save :: "log_entry list"
  log_file :: "log_entry list"
  best_val_acc :: best_acc
  best_val_acc_epoch :: nat

text \<open>
  Lines 180--196: the training pass, the validation pass, the new log entry and
  the rewriting of the log file. The result is the state after the file has been
  written, together with the entry.
\<close>

definition run_and_log ::
  "('data, 'x batch_data) model \<Rightarrow> ('sess, 'x) runtime \<Rightarrow> (nat \<Rightarrow> real) \<Rightarrow> params
     \<Rightarrow> 'data \<Rightarrow> 'data \<Rightarrow> real \<Rightarrow> nat \<Rightarrow> 'sess train_state
     \<Rightarrow> py_error + (log_entry \<times> 'sess train_state)" where
  "run_and_log m rt clock ps train_data valid_data total_time_start ep st =
     (case run_epoch m rt clock ps (world st) train_data True of
        Inl e \<Rightarrow> Inl e
      | Inr (train_res, w1) \<Rightarrow>
          (case run_epoch m rt clock ps w1 valid_data False of
             Inl e \<Rightarrow> Inl e
           | Inr (valid_res, w2) \<Rightarrow>
               (let epoch_time = clock (snd w2) - total_time_start;
                    log_entry = \<lparr>epoch = ep,
                                 time = epoch_time,
                                 train_results = train_res,
                                 valid_results = valid_res,
                                 valid_error_rate = fst (snd (snd valid_res))\<rparr>;
                    log = log_to_save st @ [log_entry]
                in Inr (log_entry,
                        st\<lparr>world := (fst w2, snd w2 + 1),
                           log_to_save := log,
                           log_file := log\<rparr>))))"

text \<open>
  The \<open>for\<close> loop of \<open>train\<close> over the epoch numbers still to run. The Boolean of
  the result tells how the loop was left: \<open>True\<close> by the \<open>break\<close> of line 204,
  \<open>False\<close> by exhausting the range.
\<close>

fun train_loop ::
  "('data, 'x batch_data) model \<Rightarrow> ('sess, 'x) runtime \<Rightarrow> (nat \<Rightarrow> real) \<Rightarrow> params
     \<Rightarrow> 'data \<Rightarrow> 'data \<Rightarrow> real \<Rightarrow> nat list \<Rightarrow> 'sess train_state
     \<Rightarrow> py_error + (bool \<times> 'sess train_state)" where
  "train_loop m rt clock ps train_data valid_data t0 [] st = Inr (False, st)"
| "train_loop m rt clock ps train_data valid_data t0 (ep # eps) st =
     (case run_and_log m rt clock ps train_data valid_data t0 ep st of
        Inl e \<Rightarrow> Inl e
      | Inr (entry, st1) \<Rightarrow>
          (let val_acc = fst (snd (valid_results entry))
           in if less_than_best val_acc (best_val_acc st1)
              then train_loop m rt clock ps train_data valid_data t0 eps
                     (st1\<lparr>best_val_acc := Finite val_acc, best_val_acc_epoch := ep\<rparr>)
              else if int ep - int (best_val_acc_epoch st1) > patience ps
              then Inr (True, st1)
              else train_loop m rt clock ps train_data valid_data t0 eps st1))"

text \<open>\<open>train\<close>, from the session as \<open>init_op\<close> leaves it. The first clock reading
  is \<open>total_time_start\<close>; \<open>range(1, num_epochs)\<close> is \<open>[1..<num_epochs]\<close>.\<close>

definition train ::
  "('data, 'x batch_data) model \<Rightarrow> ('sess, 'x) runtime \<Rightarrow> (nat \<Rightarrow> real) \<Rightarrow> params
     \<Rightarrow> 'data \<Rightarrow> 'data \<Rightarrow> 'sess \<Rightarrow> py_error + (bool \<times> 'sess train_state)" where
  "train m rt clock ps train_data valid_data sess =
     train_loop m rt clock ps train_data valid_data (clock 0) [1..<num_epochs ps]
       \<lparr>world = (sess, 1),
        log_to_save = [],
        log_file = [],
        best_val_acc = PosInf,
        best_val_acc_epoch = 0\<rparr>"

subsection \<open>The minibatch queue: \<open>ThreadedIterator\<close>\<close>

text \<open>
  Modelled from the spec: class \<open>ThreadedIterator\<close> of module \<open>utils\<close>, which
  \<open>run_epoch\<close> wraps around the model's iterator and which is not among the
  sources. According to the specification, a worker runs the batch-producing
  sequence and puts its items into one bounded first-in-first-out queue (capacity
  3 in \<open>run_epoch\<close>); the worker suspends while the queue is full; the consumer
  takes items from the head of the queue and suspends while it is empty; when the
  sequence is exhausted the worker signals completion with an end-of-stream
  sentinel and exits.

  The timing of the two threads is a schedule: the list of who is given the next
  turn. A thread that is given a turn while it is suspended, or after it has
  finished, does nothing.
\<close>

datatype actor = Producer | Consumer

record 'a channel =
  pending :: "'a list"
  sentinel_sent :: bool
  queue :: "'a option list"
  received :: "'a list"
  finished :: bool

definition start :: "'a list \<Rightarrow> 'a channel" where
  "start xs = \<lparr>pending = xs, sentinel_sent = False, queue = [], received = [], finished = False\<rparr>"

fun turn :: "nat \<Rightarrow> actor \<Rightarrow> 'a channel \<Rightarrow> 'a channel" where
  "turn max_queue_size Producer c =
     (if length (queue c) < max_queue_size
      then (case pending c of
              x # xs \<Rightarrow> c\<lparr>pending := xs, queue := queue c @ [Some x]\<rparr>
            | [] \<Rightarrow> if sentinel_sent c then c
                    else c\<lparr>sentinel_sent := True, queue := queue c @ [None]\<rparr>)
      else c)"
| "turn max_queue_size Consumer c =
     (if finished c then c
      else (case queue c of
              [] \<Rightarrow> c
            | Some x # q \<Rightarrow> c\<lparr>queue := q, received := received c @ [x]\<rparr>
            | None # q \<Rightarrow> c\<lparr>queue := q, finished := True\<rparr>))"

definition threaded_run :: "nat \<Rightarrow> actor list \<Rightarrow> 'a channel \<Rightarrow> 'a channel" where
  "threaded_run max_queue_size schedule c = fold (turn max_queue_size) schedule c"

text \<open>The invariant of the queue, in the three phases of a pass: the consumer has
  seen the sentinel; the sentinel is in the queue; the sentinel has not been sent.
  In each, what was received, what is queued and what is pending make up the
  produced sequence, in this order.\<close>

definition channel_inv :: "'a list \<Rightarrow> 'a channel \<Rightarrow> bool" where
  "channel_inv xs c =
     (if finished c
      then sentinel_sent c \<and> queue c = [] \<and> pending c = [] \<and> received c = xs
      else if sentinel_sent c
      then pending c = [] \<and> (\<exists>q. queue c = map Some q @ [None] \<and> received c @ q = xs)
      else (\<exists>q. queue c = map Some q \<and> received c @ q @ pending c = xs))"

subsection \<open>Concrete models, runtimes and data for the examples\<close>

text \<open>A model whose \<open>process_raw_graphs\<close> puts all records into one minibatch and
  whose iterator yields the minibatches of its data in order.\<close>

definition one_batch_model :: "(raw_graph list batch_data list, raw_graph list batch_data) model" where
  "one_batch_model =
     \<lparr>m_process_raw_graphs =
        (\<lambda>raw. Inr [\<lparr>feed_num_graphs = length raw, feed_dropout_keep_prob = None,
                     feed_inputs = raw\<rparr>]),
      m_make_minibatch_iterator = (\<lambda>data is_training. Inr data)\<rparr>"

definition example_graph :: "nat \<Rightarrow> nat \<Rightarrow> raw_graph" where
  "example_graph edge_type width =
     \<lparr>graph = [(0, edge_type, 1)], node_features = [replicate width 0, replicate width 0]\<rparr>"

definition example_params :: params where
  "example_params =
     \<lparr>num_epochs = 8, patience = 2, dropout_keep_prob = 1 / 2, tie_fwd_bkwd = False, task_id = 0\<rparr>"

text \<open>A model whose data already is a list of minibatches, and a runtime without
  trainable state whose loss and accuracy on a minibatch are the number stored in
  the minibatch.\<close>

definition batches_model :: "(real batch_data list, real batch_data) model" where
  "batches_model =
     \<lparr>m_process_raw_graphs = (\<lambda>raw. Inr []),
      m_make_minibatch_iterator = (\<lambda>data is_training. Inr data)\<rparr>"

definition stored_value_runtime :: "(unit, real) runtime" where
  "stored_value_runtime =
     \<lparr>loss_value = (\<lambda>sess feed. feed_inputs feed),
      accuracy_value = (\<lambda>sess feed. feed_inputs feed),
      apply_train_step = (\<lambda>sess feed. sess)\<rparr>"

definition example_batch :: "real \<Rightarrow> nat \<Rightarrow> real batch_data" where
  "example_batch v n = \<lparr>feed_num_graphs = n, feed_dropout_keep_prob = None, feed_inputs = v\<rparr>"

text \<open>A runtime whose session state counts the parameter updates made so far; its
  accuracy after the \<open>k\<close>-th update is the \<open>k\<close>-th of the validation accuracies
  5, 4, 6, 7, 8 of the specification's example (and 9 from then on).\<close>

definition counting_runtime :: "(nat, real) runtime" where
  "counting_runtime =
     \<lparr>loss_value = (\<lambda>sess feed. 0),
      accuracy_value = (\<lambda>sess feed. if sess = 0 \<or> 5 < sess then 9 else [5, 4, 6, 7, 8] ! (sess - 1)),
      apply_train_step = (\<lambda>sess feed. Suc sess)\<rparr>"

text \<open>A runtime that makes the feeds visible: its session state is the list of
  the feeds the update has been applied to, its loss on a feed is the
  dropout-keep entry of the feed, its accuracy the number of updates so far.\<close>

definition recording_runtime :: "(real batch_data list, real) runtime" where
  "recording_runtime =
     \<lparr>loss_value = (\<lambda>sess feed. case feed_dropout_keep_prob feed of None \<Rightarrow> 0 | Some p \<Rightarrow> p),
      accuracy_value = (\<lambda>sess feed. real (length sess)),
      apply_train_step = (\<lambda>sess feed. sess @ [feed])\<rparr>"

definition tick_clock :: "nat \<Rightarrow> real" where
  "tick_clock i = real i"

section \<open>Verified properties\<close>

text \<open>
  C6: the parameters resolved by \<open>__init__\<close> are, key by key, the inline
  \<open>--config\<close> value when that source is given and has the key, else the value of the
  \<open>--config-file\<close> contents when that source is given and has the key, else the
  default; a key missing from a later source keeps its earlier value.
\<close>

theorem collect_params_key_by_key:
  "collect_params defaults config_file config k =
     (case (case config of None \<Rightarrow> None | Some c \<Rightarrow> c k) of
        Some v \<Rightarrow> Some v
      | None \<Rightarrow>
          (case (case config_file of None \<Rightarrow> None | Some f \<Rightarrow> f k) of
             Some v \<Rightarrow> Some v
           | None \<Rightarrow> defaults k))"
  by (simp add: collect_params_def dict_update_def split: option.splits)

text \<open>The example of the specification: the default \<open>hidden_size\<close> of 100, a file
  that sets it to 50 and an empty inline object resolve to 50, and the untouched
  \<open>patience\<close> keeps its default.\<close>

theorem collect_params_key_by_key_witness:
  "collect_params default_params (Some [''hidden_size'' \<mapsto> PInt 50]) (Some Map.empty)
       ''hidden_size'' = Some (PInt 50)
   \<and> collect_params default_params (Some [''hidden_size'' \<mapsto> PInt 50]) (Some Map.empty)
       ''patience'' = Some (PInt 25)"
  using collect_params_key_by_key [of default_params "Some [''hidden_size'' \<mapsto> PInt 50]"
      "Some Map.empty" "''hidden_size''"]
    collect_params_key_by_key [of default_params "Some [''hidden_size'' \<mapsto> PInt 50]"
      "Some Map.empty" "''patience''"]
  by (simp add: default_params_def)

text \<open>
  C8: each of the five extension points of the base class, called on any
  argument, raises its exception and so never returns a value; the base class
  dispatches to exactly these.
\<close>

theorem extension_points_raise:
  "(process_raw_graphs raw_data :: py_error + 'data) =
       Inl (Exception ''Models have to implement process_raw_graphs!'')
   \<and> (gated_regression (last_h :: 'tensor) :: py_error + 'tensor) =
       Inl (Exception ''Models have to implement gated_regression!'')
   \<and> prepare_specific_model u = Inl (Exception ''Models have to implement prepare_specific_model!'')
   \<and> (compute_final_node_representations u :: py_error + 'tensor) =
       Inl (Exception ''Models have to implement compute_final_node_representations!'')
   \<and> (make_minibatch_iterator (data :: 'data) is_training :: py_error + 'batch list) =
       Inl (Exception ''Models have to implement make_minibatch_iterator!'')
   \<and> (\<nexists>r. m_process_raw_graphs (ChemModel :: ('data, 'batch) model) raws = Inr r)
   \<and> (\<nexists>r. m_make_minibatch_iterator (ChemModel :: ('data, 'batch) model) data is_training = Inr r)"
  by (simp add: process_raw_graphs_def gated_regression_def prepare_specific_model_def
      compute_final_node_representations_def make_minibatch_iterator_def ChemModel_def)

subsection \<open>Data-derived fields after loading\<close>

lemma py_max_Inr: "py_max xs = Inr m \<longleftrightarrow> xs \<noteq> [] \<and> m = Max (set xs)"
  by (cases xs) (auto simp: py_max_def Max.set_eq_fold [symmetric] simp del: set_simps)

lemma Max_insert_max_Un:
  fixes a :: nat
  assumes "finite A" "A \<noteq> {}" "finite T"
  shows "Max (insert (max a (Max A)) T) = Max (insert a (A \<union> T))"
proof (cases "T = {}")
  case True
  with assms show ?thesis by simp
next
  case False
  with assms show ?thesis by (simp add: Max_Un max.assoc)
qed

lemma scan_graphs_fwd:
  "scan_graphs gs (mnv, nf) = Inr (mnv', nf') \<Longrightarrow>
     nf' = Max (insert nf (set (concat (map edge_types gs))))"
proof (induction gs arbitrary: mnv nf)
  case Nil then show ?case by simp
next
  case (Cons g gs)
  from Cons.prems obtain mv mt where
    mv: "py_max (edge_vertices g) = Inr mv" and mt: "py_max (edge_types g) = Inr mt"
    and rest: "scan_graphs gs (max mnv mv, max nf mt) = Inr (mnv', nf')"
    by (auto split: sum.splits)
  from mt have ne: "set (edge_types g) \<noteq> {}" and mt_eq: "mt = Max (set (edge_types g))"
    by (simp_all add: py_max_Inr)
  let ?T = "set (concat (map edge_types gs))"
  have "nf' = Max (insert (max nf mt) ?T)" using Cons.IH [OF rest] .
  also have "\<dots> = Max (insert nf (set (edge_types g) \<union> ?T))"
    unfolding mt_eq using ne by (intro Max_insert_max_Un) simp_all
  finally show ?case by simp
qed

lemma scan_graphs_nonempty:
  "scan_graphs gs acc = Inr acc' \<Longrightarrow> g \<in> set gs \<Longrightarrow> edge_types g \<noteq> []"
proof (induction gs arbitrary: acc)
  case Nil then show ?case by simp
next
  case (Cons h gs)
  obtain mnv nf where acc: "acc = (mnv, nf)" by (cases acc)
  from Cons.prems(1) acc obtain mv mt where
    mt: "py_max (edge_types h) = Inr mt"
    and rest: "scan_graphs gs (max mnv mv, max nf mt) = Inr acc'"
    by (auto split: sum.splits)
  show ?case
  proof (cases "g = h")
    case True with mt show ?thesis by (simp add: py_max_Inr)
  next
    case False
    with Cons.prems(2) have "g \<in> set gs" by simp
    from Cons.IH [OF rest this] show ?thesis .
  qed
qed

lemma load_data_fields:
  assumes "load_data m ps r self d = Inr (p, self')"
  shows "num_edge_types self' =
           max (num_edge_types self) (max_fwd_edge_type (restrict_data r d) * (if tie_fwd_bkwd ps then 1 else 2))"
    and "annotation_size self' = max (annotation_size self) (first_feature_length (restrict_data r d))"
proof -
  let ?data = "restrict_data r d"
  obtain mnv nf where scan: "scan_graphs ?data (max_num_vertices self, 0) = Inr (mnv, nf)"
    using assms by (cases "scan_graphs ?data (max_num_vertices self, 0)")
      (auto simp: load_data_def)
  obtain g0 gs where data: "?data = g0 # gs"
    using assms scan by (cases ?data) (auto simp: load_data_def)
  obtain f0 fs where feats: "node_features g0 = f0 # fs"
    using assms scan data by (cases "node_features g0") (auto simp: load_data_def)
  have self': "self' = \<lparr>max_num_vertices = mnv,
                  num_edge_types = max (num_edge_types self) (nf * (if tie_fwd_bkwd ps then 1 else 2)),
                  annotation_size = max (annotation_size self) (length f0)\<rparr>"
    using assms scan data feats
    by (cases "m_process_raw_graphs m (g0 # gs)") (auto simp: load_data_def)
  have "edge_types g0 \<noteq> []" using scan_graphs_nonempty [OF scan] data by simp
  then have ne: "set (concat (map edge_types ?data)) \<noteq> {}" using data by simp
  have "nf = Max (insert 0 (set (concat (map edge_types ?data))))"
    using scan_graphs_fwd [OF scan] .
  also have "\<dots> = max_fwd_edge_type ?data"
    using ne by (simp add: max_fwd_edge_type_def del: set_concat)
  finally have nf: "nf = max_fwd_edge_type ?data" .
  show "num_edge_types self' =
           max (num_edge_types self) (max_fwd_edge_type ?data * (if tie_fwd_bkwd ps then 1 else 2))"
    using self' nf by simp
  show "annotation_size self' = max (annotation_size self) (first_feature_length ?data)"
    using self' data feats by (simp add: first_feature_length_def)
qed

lemma Max_insert_max2:
  fixes a b :: nat
  assumes "finite A"
  shows "Max (insert (max a b) A) = Max (insert a (insert b A))"
proof (cases "A = {}")
  case True
  then show ?thesis by simp
next
  case False
  with assms show ?thesis by (simp add: max.assoc)
qed

lemma load_data_calls_fields:
  assumes "load_data_calls m ps r self ds = Inr (out, self')"
  shows "num_edge_types self' =
           Max (insert (num_edge_types self)
                  ((\<lambda>d. max_fwd_edge_type (restrict_data r d) * (if tie_fwd_bkwd ps then 1 else 2)) ` set ds))"
    and "annotation_size self' =
           Max (insert (annotation_size self)
                  ((\<lambda>d. first_feature_length (restrict_data r d)) ` set ds))"
  using assms
proof (induction ds arbitrary: self out)
  case Nil
  { case 1 then show ?case by simp }
  { case 2 then show ?case by simp }
next
  case (Cons d ds)
  { case 1
    from 1 obtain p self1 rest where
      first: "load_data m ps r self d = Inr (p, self1)"
      and rest: "load_data_calls m ps r self1 ds = Inr (rest, self')"
      by (auto split: sum.splits)
    show ?case
      using Cons.IH(1) [OF rest] load_data_fields(1) [OF first]
      by (simp add: Max_insert_max2) }
  { case 2
    from 2 obtain p self1 rest where
      first: "load_data m ps r self d = Inr (p, self1)"
      and rest: "load_data_calls m ps r self1 ds = Inr (rest, self')"
      by (auto split: sum.splits)
    show ?case
      using Cons.IH(2) [OF rest] load_data_fields(2) [OF first]
      by (simp add: Max_insert_max2) }
qed

text \<open>
  C4: after any non-empty sequence of successful \<open>load_data\<close> calls on a fresh
  object, with the same \<open>tie_fwd_bkwd\<close> flag throughout, \<open>num_edge_types\<close> is the
  maximum over the calls made so far of the largest forward edge type among the
  records the call kept, times 1 if the directions are tied and times 2 otherwise.
\<close>

theorem num_edge_types_running_max:
  assumes "load_data_calls m ps restrict initial_fields ds = Inr (out, self')"
    and "ds \<noteq> []"
  shows "num_edge_types self' =
           Max ((\<lambda>d. max_fwd_edge_type (restrict_data restrict d)
                       * (if tie_fwd_bkwd ps then 1 else 2)) ` set ds)"
  using load_data_calls_fields(1) [OF assms(1)] assms(2)
  by (simp add: initial_fields_def)

text \<open>The example of the specification: a split whose largest forward edge type is
  2, then one whose largest is 3, directions not tied: \<open>num_edge_types\<close> is 6.\<close>

theorem num_edge_types_running_max_witness:
  "load_data_calls one_batch_model example_params None initial_fields
       [[example_graph 2 1], [example_graph 3 1]]
     = Inr ([[\<lparr>feed_num_graphs = 1, feed_dropout_keep_prob = None,
                feed_inputs = [example_graph 2 1]\<rparr>],
             [\<lparr>feed_num_graphs = 1, feed_dropout_keep_prob = None,
                feed_inputs = [example_graph 3 1]\<rparr>]],
            \<lparr>max_num_vertices = 1, num_edge_types = 6, annotation_size = 1\<rparr>)
   \<and> Max ((\<lambda>d. max_fwd_edge_type (restrict_data None d)
                 * (if tie_fwd_bkwd example_params then 1 else 2))
            ` set [[example_graph 2 1], [example_graph 3 1]]) = 6"
proof -
  have run: "load_data_calls one_batch_model example_params None initial_fields
       [[example_graph 2 1], [example_graph 3 1]]
     = Inr ([[\<lparr>feed_num_graphs = 1, feed_dropout_keep_prob = None,
                feed_inputs = [example_graph 2 1]\<rparr>],
             [\<lparr>feed_num_graphs = 1, feed_dropout_keep_prob = None,
                feed_inputs = [example_graph 3 1]\<rparr>]],
            \<lparr>max_num_vertices = 1, num_edge_types = 6, annotation_size = 1\<rparr>)"
    by (simp add: load_data_def restrict_data_def initial_fields_def one_batch_model_def
        example_graph_def example_params_def py_max_def edge_vertices_def edge_types_def)
  from num_edge_types_running_max [OF run] run show ?thesis by simp
qed

text \<open>
  C3, as amended: \<open>annotation_size\<close> is re-derived by every \<open>load_data\<close> call.
  After any non-empty sequence of successful calls on a fresh object it is the
  maximum over the calls of the length of the first feature vector of the first
  record the call kept; it is the value of the first call whenever no call has a
  longer such vector than the first.
\<close>

theorem annotation_size_running_max:
  assumes "load_data_calls m ps restrict initial_fields ds = Inr (out, self')"
    and "ds \<noteq> []"
  shows "annotation_size self' =
           Max ((\<lambda>d. first_feature_length (restrict_data restrict d)) ` set ds)
         \<and> ((\<forall>d \<in> set ds. first_feature_length (restrict_data restrict d)
                              \<le> first_feature_length (restrict_data restrict (hd ds)))
            \<longrightarrow> annotation_size self' = first_feature_length (restrict_data restrict (hd ds)))"
proof -
  let ?f = "\<lambda>d. first_feature_length (restrict_data restrict d)"
  have eq: "annotation_size self' = Max (?f ` set ds)"
    using load_data_calls_fields(2) [OF assms(1)] assms(2)
    by (simp add: initial_fields_def)
  have "Max (?f ` set ds) = ?f (hd ds)" if "\<forall>d \<in> set ds. ?f d \<le> ?f (hd ds)"
  proof (rule Max_eqI)
    show "finite (?f ` set ds)" by simp
    show "\<And>y. y \<in> ?f ` set ds \<Longrightarrow> y \<le> ?f (hd ds)" using that by auto
    show "?f (hd ds) \<in> ?f ` set ds" using assms(2) by simp
  qed
  with eq show ?thesis by simp
qed

text \<open>The claim as stated fails: a first file whose first record has feature
  vectors of length 1, followed by a file whose first record has feature vectors of
  length 2, leaves \<open>annotation_size = 2\<close>, not the 1 of the first file.\<close>

theorem annotation_size_first_load_counterexample:
  "load_data_calls one_batch_model example_params None initial_fields
       [[example_graph 2 1], [example_graph 3 2]]
     = Inr ([[\<lparr>feed_num_graphs = 1, feed_dropout_keep_prob = None,
                feed_inputs = [example_graph 2 1]\<rparr>],
             [\<lparr>feed_num_graphs = 1, feed_dropout_keep_prob = None,
                feed_inputs = [example_graph 3 2]\<rparr>]],
            \<lparr>max_num_vertices = 1, num_edge_types = 6, annotation_size = 2\<rparr>)
   \<and> first_feature_length (restrict_data None [example_graph 2 1]) = 1
   \<and> length (hd (node_features (example_graph 2 1))) = 1"
  by (simp add: load_data_def restrict_data_def initial_fields_def one_batch_model_def
      example_graph_def example_params_def py_max_def edge_vertices_def edge_types_def
      first_feature_length_def)

theorem annotation_size_running_max_witness:
  "load_data_calls one_batch_model example_params None initial_fields
       [[example_graph 2 1], [example_graph 3 2]]
     = Inr ([[\<lparr>feed_num_graphs = 1, feed_dropout_keep_prob = None,
                feed_inputs = [example_graph 2 1]\<rparr>],
             [\<lparr>feed_num_graphs = 1, feed_dropout_keep_prob = None,
                feed_inputs = [example_graph 3 2]\<rparr>]],
            \<lparr>max_num_vertices = 1, num_edge_types = 6, annotation_size = 2\<rparr>)
   \<and> Max ((\<lambda>d. first_feature_length (restrict_data None d))
            ` set [[example_graph 2 1], [example_graph 3 2]]) = 2
   \<and> load_data_calls one_batch_model example_params None initial_fields
       [[example_graph 2 2], [example_graph 3 1]]
     = Inr ([[\<lparr>feed_num_graphs = 1, feed_dropout_keep_prob = None,
                feed_inputs = [example_graph 2 2]\<rparr>],
             [\<lparr>feed_num_graphs = 1, feed_dropout_keep_prob = None,
                feed_inputs = [example_graph 3 1]\<rparr>]],
            \<lparr>max_num_vertices = 1, num_edge_types = 6, annotation_size = 2\<rparr>)
   \<and> first_feature_length (restrict_data None (hd [[example_graph 2 2], [example_graph 3 1]])) = 2"
proof -
  have run1: "load_data_calls one_batch_model example_params None initial_fields
       [[example_graph 2 1], [example_graph 3 2]]
     = Inr ([[\<lparr>feed_num_graphs = 1, feed_dropout_keep_prob = None,
                feed_inputs = [example_graph 2 1]\<rparr>],
             [\<lparr>feed_num_graphs = 1, feed_dropout_keep_prob = None,
                feed_inputs = [example_graph 3 2]\<rparr>]],
            \<lparr>max_num_vertices = 1, num_edge_types = 6, annotation_size = 2\<rparr>)"
    by (simp add: load_data_def restrict_data_def initial_fields_def one_batch_model_def
        example_graph_def example_params_def py_max_def edge_vertices_def edge_types_def)
  have run2: "load_data_calls one_batch_model example_params None initial_fields
       [[example_graph 2 2], [example_graph 3 1]]
     = Inr ([[\<lparr>feed_num_graphs = 1, feed_dropout_keep_prob = None,
                feed_inputs = [example_graph 2 2]\<rparr>],
             [\<lparr>feed_num_graphs = 1, feed_dropout_keep_prob = None,
                feed_inputs = [example_graph 3 1]\<rparr>]],
            \<lparr>max_num_vertices = 1, num_edge_types = 6, annotation_size = 2\<rparr>)"
    by (simp add: load_data_def restrict_data_def initial_fields_def one_batch_model_def
        example_graph_def example_params_def py_max_def edge_vertices_def edge_types_def)
  have le: "\<forall>d \<in> set [[example_graph 2 2], [example_graph 3 1]].
              first_feature_length (restrict_data None d)
                \<le> first_feature_length (restrict_data None (hd [[example_graph 2 2], [example_graph 3 1]]))"
    by (simp add: first_feature_length_def restrict_data_def example_graph_def)
  from annotation_size_running_max [OF run1] have a: "Max ((\<lambda>d. first_feature_length (restrict_data None d))
            ` set [[example_graph 2 1], [example_graph 3 2]]) = 2"
    by simp
  from annotation_size_running_max [OF run2] le
  have b: "first_feature_length (restrict_data None (hd [[example_graph 2 2], [example_graph 3 1]])) = 2"
    by simp
  from run1 run2 a b show ?thesis by blast
qed

subsection \<open>Aggregates and requests of \<open>run_epoch\<close>\<close>

lemma result_number_request:
  "result_number (fst (sess_run rt sess (snd (minibatch_request ps t b)) feed)) 0
     = Inr (loss_value rt sess feed)"
  "result_number (fst (sess_run rt sess (snd (minibatch_request ps t b)) feed)) 1
     = Inr (accuracy_value rt sess feed)"
  by (simp_all add: result_number_def sess_run_def minibatch_request_def py_index_def
      fetch_value_def)

lemma run_batches_sums:
  "\<exists>sess'. run_batches rt ps t bs ((l, a, p), sess) =
     Inr ((l + (\<Sum>(v, n) \<leftarrow> zip (map fst (batch_results rt ps t sess bs)) (map feed_num_graphs bs). v * real n),
           a + (\<Sum>(v, n) \<leftarrow> zip (map snd (batch_results rt ps t sess bs)) (map feed_num_graphs bs). v * real n),
           p + sum_list (map feed_num_graphs bs)), sess')"
proof (induction bs arbitrary: l a p sess)
  case Nil
  then show ?case by simp
next
  case (Cons b bs)
  let ?req = "minibatch_request ps t b"
  let ?s1 = "snd (sess_run rt sess (snd ?req) (fst ?req))"
  let ?n = "feed_num_graphs b"
  from Cons.IH [of "l + loss_value rt sess (fst ?req) * real ?n"
      "a + accuracy_value rt sess (fst ?req) * real ?n" "p + ?n" ?s1]
  obtain sess' where
    "run_batches rt ps t bs
       ((l + loss_value rt sess (fst ?req) * real ?n,
         a + accuracy_value rt sess (fst ?req) * real ?n, p + ?n), ?s1) =
     Inr ((l + loss_value rt sess (fst ?req) * real ?n
             + (\<Sum>(v, n) \<leftarrow> zip (map fst (batch_results rt ps t ?s1 bs)) (map feed_num_graphs bs). v * real n),
           a + accuracy_value rt sess (fst ?req) * real ?n
             + (\<Sum>(v, n) \<leftarrow> zip (map snd (batch_results rt ps t ?s1 bs)) (map feed_num_graphs bs). v * real n),
           p + ?n + sum_list (map feed_num_graphs bs)), sess')"
    by blast
  then show ?case
    by (simp add: Let_def result_number_request add.assoc)
qed

lemma py_index_chemical_accuracy:
  assumes "- 13 \<le> i" "i < 13"
  shows "\<exists>c. py_index chemical_accuracy i = Inr c"
  using assms by (simp add: py_index_def chemical_accuracy_def)

text \<open>
  C2: when the model's iterator yields the minibatches \<open>batches\<close>, their graph
  counts do not sum to zero, \<open>task_id\<close> indexes the reference table and the two
  clock readings of the pass differ, \<open>run_epoch\<close> returns, and the loss and the
  accuracy it returns are the sums of the per-batch losses and accuracies, each
  multiplied by the graph count of its batch, divided by the total graph count.
\<close>

theorem run_epoch_weighted_mean:
  assumes "m_make_minibatch_iterator m data is_training = Inr batches"
    and "sum_list (map feed_num_graphs batches) \<noteq> 0"
    and "- 13 \<le> task_id ps" and "task_id ps < 13"
    and "clock (ticks + 1) \<noteq> clock ticks"
  shows "\<exists>error_ratio instance_per_sec world'.
           run_epoch m rt clock ps (sess, ticks) data is_training =
             Inr ((weighted_mean (map fst (batch_results rt ps is_training sess batches))
                     (map feed_num_graphs batches),
                   weighted_mean (map snd (batch_results rt ps is_training sess batches))
                     (map feed_num_graphs batches),
                   error_ratio, instance_per_sec), world')"
proof -
  obtain sess' where batches:
    "run_batches rt ps is_training batches ((0, 0, 0), sess) =
       Inr (((\<Sum>(v, n) \<leftarrow> zip (map fst (batch_results rt ps is_training sess batches))
                         (map feed_num_graphs batches). v * real n),
             (\<Sum>(v, n) \<leftarrow> zip (map snd (batch_results rt ps is_training sess batches))
                         (map feed_num_graphs batches). v * real n),
             sum_list (map feed_num_graphs batches)), sess')"
    using run_batches_sums [of rt ps is_training batches 0 0 0 sess] by auto
  obtain c where c: "py_index chemical_accuracy (task_id ps) = Inr c"
    using py_index_chemical_accuracy [OF assms(3,4)] by blast
  show ?thesis
    using assms(1,2,5) batches c
    by (simp add: run_epoch_def Let_def weighted_mean_def)
qed

text \<open>The example of the specification: batches with loss 1.0 and 1 graph, and
  loss 3.0 and 3 graphs, give the aggregate loss 2.5.\<close>

theorem run_epoch_weighted_mean_witness:
  "run_epoch batches_model stored_value_runtime tick_clock example_params ((), 0)
       [example_batch 1 1, example_batch 3 3] False
     = Inr ((5 / 2, 5 / 2, (5 / 2) / (66513725 / 1000000000), 4), ((), 2))
   \<and> weighted_mean
         (map fst (batch_results stored_value_runtime example_params False ()
                     [example_batch 1 1, example_batch 3 3]))
         (map feed_num_graphs [example_batch 1 1, example_batch 3 3]) = 5 / 2"
proof -
  have run: "run_epoch batches_model stored_value_runtime tick_clock example_params ((), 0)
       [example_batch 1 1, example_batch 3 3] False
     = Inr ((5 / 2, 5 / 2, (5 / 2) / (66513725 / 1000000000), 4), ((), 2))"
    by (simp add: run_epoch_def batches_model_def stored_value_runtime_def tick_clock_def
        example_params_def example_batch_def Let_def result_number_def sess_run_def
        minibatch_request_def py_index_def fetch_value_def chemical_accuracy_def)
  have it: "m_make_minibatch_iterator batches_model [example_batch 1 1, example_batch 3 3] False
              = Inr [example_batch 1 1, example_batch 3 3]"
    by (simp add: batches_model_def)
  have total: "sum_list (map feed_num_graphs [example_batch 1 1, example_batch 3 3]) \<noteq> 0"
    by (simp add: example_batch_def)
  have task: "- 13 \<le> task_id example_params" "task_id example_params < 13"
    by (simp_all add: example_params_def)
  have clk: "tick_clock (0 + 1) \<noteq> tick_clock 0"
    by (simp add: tick_clock_def)
  from run_epoch_weighted_mean [OF it total task clk, of stored_value_runtime "()"] run
  show ?thesis by auto
qed

lemma run_batches_session:
  "run_batches rt ps t bs (acc, sess) = Inr (acc', sess') \<Longrightarrow>
     sess' = fold (\<lambda>b s. snd (sess_run rt s (snd (minibatch_request ps t b))
                                 (fst (minibatch_request ps t b)))) bs sess"
proof (induction bs arbitrary: acc sess)
  case Nil
  then show ?case by simp
next
  case (Cons b bs)
  obtain l a p where acc: "acc = (l, a, p)" by (cases acc) auto
  from Cons.prems acc show ?case
    by (auto simp: Let_def result_number_request dest: Cons.IH)
qed

lemma validation_session_fixed:
  "fold (\<lambda>b s. snd (sess_run rt s [Loss, Accuracy] (f b))) bs sess = sess"
  by (induction bs) (simp_all add: sess_run_def)

lemma training_session_updates:
  "fold (\<lambda>b s. snd (sess_run rt s [Loss, Accuracy, TrainStep] (f b))) bs sess
     = fold (\<lambda>b s. apply_train_step rt s (f b)) bs sess"
  by (simp add: sess_run_def)

lemma batch_results_validation:
  "batch_results rt ps False sess bs =
     map (\<lambda>b. (loss_value rt sess (b\<lparr>feed_dropout_keep_prob := Some 1\<rparr>),
                accuracy_value rt sess (b\<lparr>feed_dropout_keep_prob := Some 1\<rparr>))) bs"
  by (induction bs) (simp_all add: minibatch_request_def sess_run_def)

lemma batch_results_training:
  "batch_results rt ps True sess bs =
     map (\<lambda>i. (loss_value rt
                  (fold (\<lambda>b s. apply_train_step rt s (b\<lparr>feed_dropout_keep_prob := Some (dropout_keep_prob ps)\<rparr>))
                     (take i bs) sess)
                  ((bs ! i)\<lparr>feed_dropout_keep_prob := Some (dropout_keep_prob ps)\<rparr>),
                accuracy_value rt
                  (fold (\<lambda>b s. apply_train_step rt s (b\<lparr>feed_dropout_keep_prob := Some (dropout_keep_prob ps)\<rparr>))
                     (take i bs) sess)
                  ((bs ! i)\<lparr>feed_dropout_keep_prob := Some (dropout_keep_prob ps)\<rparr>)))
       [0..<length bs]"
proof (induction bs arbitrary: sess)
  case Nil
  then show ?case by simp
next
  case (Cons b bs)
  have idx: "[0..<length (b # bs)] = 0 # map Suc [0..<length bs]"
    by (simp add: upt_conv_Cons map_Suc_upt del: upt_Suc)
  show ?case
    unfolding idx
    by (simp add: Cons.IH minibatch_request_def sess_run_def o_def)
qed

lemma run_epoch_returns:
  assumes "m_make_minibatch_iterator m data t = Inr batches"
    and "run_epoch m rt clock ps (sess, ticks) data t
           = Inr ((loss, accuracy, error_ratio, rate), world')"
  shows "\<exists>l a p sess'.
           run_batches rt ps t batches ((0, 0, 0), sess) = Inr ((l, a, p), sess')
         \<and> p \<noteq> 0 \<and> loss = l / real p \<and> accuracy = a / real p \<and> fst world' = sess'"
  using assms
  by (auto simp: run_epoch_def Let_def split: sum.splits prod.splits if_splits)

lemma run_epoch_pass:
  assumes "m_make_minibatch_iterator m data t = Inr batches"
    and "run_epoch m rt clock ps (sess, ticks) data t
           = Inr ((loss, accuracy, error_ratio, rate), world')"
  shows "loss = weighted_mean (map fst (batch_results rt ps t sess batches))
                  (map feed_num_graphs batches)"
    and "accuracy = weighted_mean (map snd (batch_results rt ps t sess batches))
                  (map feed_num_graphs batches)"
    and "fst world' = fold (\<lambda>b s. snd (sess_run rt s (snd (minibatch_request ps t b))
                                 (fst (minibatch_request ps t b)))) batches sess"
proof -
  from run_epoch_returns [OF assms] obtain l a p sess' where
    run: "run_batches rt ps t batches ((0, 0, 0), sess) = Inr ((l, a, p), sess')"
    and vals: "loss = l / real p" "accuracy = a / real p" "fst world' = sess'"
    by blast
  from run_batches_sums [of rt ps t batches 0 0 0 sess] run
  have "l = (\<Sum>(v, n) \<leftarrow> zip (map fst (batch_results rt ps t sess batches)) (map feed_num_graphs batches). v * real n)"
    "a = (\<Sum>(v, n) \<leftarrow> zip (map snd (batch_results rt ps t sess batches)) (map feed_num_graphs batches). v * real n)"
    "p = sum_list (map feed_num_graphs batches)"
    by auto
  with vals show "loss = weighted_mean (map fst (batch_results rt ps t sess batches))
                  (map feed_num_graphs batches)"
    "accuracy = weighted_mean (map snd (batch_results rt ps t sess batches))
                  (map feed_num_graphs batches)"
    by (simp_all add: weighted_mean_def)
  from run_batches_session [OF run] vals(3)
  show "fst world' = fold (\<lambda>b s. snd (sess_run rt s (snd (minibatch_request ps t b))
                                 (fst (minibatch_request ps t b)))) batches sess"
    by simp
qed

text \<open>
  C7: let the iterator yield \<open>batches\<close> and the pass return. With
  \<open>is_training = False\<close> the session it hands back is the one reached by asking,
  for each minibatch in turn, for the loss and the accuracy only, under the
  minibatch with 1.0 stored as its dropout-keep entry, which is the session the
  pass started from; and the loss and the accuracy it returns are the weighted
  means of the values of the two tensors under these feeds, whatever the
  configured \<open>dropout_keep_prob\<close>. With \<open>is_training = True\<close> the session handed
  back is the one reached by asking, for each minibatch in turn, for the loss, the
  accuracy and the train step under the minibatch with the configured
  \<open>dropout_keep_prob\<close> stored, that is, by applying the update once per minibatch
  under that feed; and the values returned are the weighted means of the two
  tensors under these feeds, each evaluated in the session left by the updates for
  the minibatches before it.
\<close>

theorem validation_pass_requests:
  assumes "m_make_minibatch_iterator m data is_training = Inr batches"
    and "run_epoch m rt clock ps (sess, ticks) data is_training
           = Inr ((loss, accuracy, error_ratio, rate), world')"
  shows
    "(\<not> is_training \<longrightarrow>
        fst world' = fold (\<lambda>b s. snd (sess_run rt s [Loss, Accuracy]
                                        (b\<lparr>feed_dropout_keep_prob := Some 1\<rparr>))) batches sess
      \<and> fst world' = sess
      \<and> loss = weighted_mean
                 (map (\<lambda>b. loss_value rt sess (b\<lparr>feed_dropout_keep_prob := Some 1\<rparr>)) batches)
                 (map feed_num_graphs batches)
      \<and> accuracy = weighted_mean
                 (map (\<lambda>b. accuracy_value rt sess (b\<lparr>feed_dropout_keep_prob := Some 1\<rparr>)) batches)
                 (map feed_num_graphs batches))
   \<and> (is_training \<longrightarrow>
        fst world' = fold (\<lambda>b s. snd (sess_run rt s [Loss, Accuracy, TrainStep]
                                        (b\<lparr>feed_dropout_keep_prob := Some (dropout_keep_prob ps)\<rparr>)))
                       batches sess
      \<and> fst world' = fold (\<lambda>b s. apply_train_step rt s
                                     (b\<lparr>feed_dropout_keep_prob := Some (dropout_keep_prob ps)\<rparr>))
                       batches sess
      \<and> loss = weighted_mean
                 (map (\<lambda>i. loss_value rt
                             (fold (\<lambda>b s. apply_train_step rt s
                                      (b\<lparr>feed_dropout_keep_prob := Some (dropout_keep_prob ps)\<rparr>))
                                (take i batches) sess)
                             ((batches ! i)\<lparr>feed_dropout_keep_prob := Some (dropout_keep_prob ps)\<rparr>))
                    [0..<length batches])
                 (map feed_num_graphs batches)
      \<and> accuracy = weighted_mean
                 (map (\<lambda>i. accuracy_value rt
                             (fold (\<lambda>b s. apply_train_step rt s
                                      (b\<lparr>feed_dropout_keep_prob := Some (dropout_keep_prob ps)\<rparr>))
                                (take i batches) sess)
                             ((batches ! i)\<lparr>feed_dropout_keep_prob := Some (dropout_keep_prob ps)\<rparr>))
                    [0..<length batches])
                 (map feed_num_graphs batches))"
proof (cases is_training)
  case False
  then have t: "is_training = False" by simp
  note pass = run_epoch_pass [OF assms [unfolded t]]
  from pass(3) have s: "fst world' = fold (\<lambda>b s. snd (sess_run rt s [Loss, Accuracy]
                                        (b\<lparr>feed_dropout_keep_prob := Some 1\<rparr>))) batches sess"
    by (simp add: minibatch_request_def)
  moreover from s have "fst world' = sess"
    by (simp only: validation_session_fixed)
  moreover from pass(1) have "loss = weighted_mean
                 (map (\<lambda>b. loss_value rt sess (b\<lparr>feed_dropout_keep_prob := Some 1\<rparr>)) batches)
                 (map feed_num_graphs batches)"
    by (simp add: batch_results_validation o_def)
  moreover from pass(2) have "accuracy = weighted_mean
                 (map (\<lambda>b. accuracy_value rt sess (b\<lparr>feed_dropout_keep_prob := Some 1\<rparr>)) batches)
                 (map feed_num_graphs batches)"
    by (simp add: batch_results_validation o_def)
  ultimately show ?thesis using False by simp
next
  case True
  then have t: "is_training = True" by simp
  note pass = run_epoch_pass [OF assms [unfolded t]]
  from pass(3) have s: "fst world' = fold (\<lambda>b s. snd (sess_run rt s [Loss, Accuracy, TrainStep]
                                        (b\<lparr>feed_dropout_keep_prob := Some (dropout_keep_prob ps)\<rparr>)))
                       batches sess"
    by (simp add: minibatch_request_def)
  moreover from s have "fst world' = fold (\<lambda>b s. apply_train_step rt s
                                     (b\<lparr>feed_dropout_keep_prob := Some (dropout_keep_prob ps)\<rparr>))
                       batches sess"
    by (simp only: training_session_updates)
  moreover from pass(1) have "loss = weighted_mean
                 (map (\<lambda>i. loss_value rt
                             (fold (\<lambda>b s. apply_train_step rt s
                                      (b\<lparr>feed_dropout_keep_prob := Some (dropout_keep_prob ps)\<rparr>))
                                (take i batches) sess)
                             ((batches ! i)\<lparr>feed_dropout_keep_prob := Some (dropout_keep_prob ps)\<rparr>))
                    [0..<length batches])
                 (map feed_num_graphs batches)"
    by (simp add: batch_results_training o_def)
  moreover from pass(2) have "accuracy = weighted_mean
                 (map (\<lambda>i. accuracy_value rt
                             (fold (\<lambda>b s. apply_train_step rt s
                                      (b\<lparr>feed_dropout_keep_prob := Some (dropout_keep_prob ps)\<rparr>))
                                (take i batches) sess)
                             ((batches ! i)\<lparr>feed_dropout_keep_prob := Some (dropout_keep_prob ps)\<rparr>))
                    [0..<length batches])
                 (map feed_num_graphs batches)"
    by (simp add: batch_results_training o_def)
  ultimately show ?thesis using True by simp
qed

text \<open>Two minibatches of 2 and 1 graphs with the configured keep probability
  1/2, on the runtime that shows the feeds: validation reports the loss 1.0 and
  leaves the session empty, training reports the loss 0.5 and leaves the two
  feeds, each with the entry 0.5, in the session.\<close>

theorem validation_pass_requests_witness:
  "run_epoch batches_model recording_runtime tick_clock example_params ([], 0)
       [example_batch 0 2, example_batch 0 1] False
     = Inr ((1, 0, 0, 3), ([], 2))
   \<and> run_epoch batches_model recording_runtime tick_clock example_params ([], 0)
       [example_batch 0 2, example_batch 0 1] True
     = Inr ((1 / 2, 1 / 3, (1 / 3) / (66513725 / 1000000000), 3),
            ([\<lparr>feed_num_graphs = 2, feed_dropout_keep_prob = Some (1 / 2), feed_inputs = 0\<rparr>,
              \<lparr>feed_num_graphs = 1, feed_dropout_keep_prob = Some (1 / 2), feed_inputs = 0\<rparr>], 2))
   \<and> weighted_mean
         (map (\<lambda>b. loss_value recording_runtime [] (b\<lparr>feed_dropout_keep_prob := Some 1\<rparr>))
            [example_batch 0 2, example_batch 0 1])
         (map feed_num_graphs [example_batch 0 2, example_batch 0 1]) = 1
   \<and> fold (\<lambda>b s. apply_train_step recording_runtime s
                    (b\<lparr>feed_dropout_keep_prob := Some (dropout_keep_prob example_params)\<rparr>))
         [example_batch 0 2, example_batch 0 1] []
       = [\<lparr>feed_num_graphs = 2, feed_dropout_keep_prob = Some (1 / 2), feed_inputs = 0\<rparr>,
          \<lparr>feed_num_graphs = 1, feed_dropout_keep_prob = Some (1 / 2), feed_inputs = 0\<rparr>]"
proof -
  have validation: "run_epoch batches_model recording_runtime tick_clock example_params ([], 0)
       [example_batch 0 2, example_batch 0 1] False
     = Inr ((1, 0, 0, 3), ([], 2))"
    by (simp add: run_epoch_def batches_model_def recording_runtime_def tick_clock_def
        example_params_def example_batch_def Let_def result_number_def sess_run_def
        minibatch_request_def py_index_def fetch_value_def chemical_accuracy_def)
  have training: "run_epoch batches_model recording_runtime tick_clock example_params ([], 0)
       [example_batch 0 2, example_batch 0 1] True
     = Inr ((1 / 2, 1 / 3, (1 / 3) / (66513725 / 1000000000), 3),
            ([\<lparr>feed_num_graphs = 2, feed_dropout_keep_prob = Some (1 / 2), feed_inputs = 0\<rparr>,
              \<lparr>feed_num_graphs = 1, feed_dropout_keep_prob = Some (1 / 2), feed_inputs = 0\<rparr>], 2))"
    by (simp add: run_epoch_def batches_model_def recording_runtime_def tick_clock_def
        example_params_def example_batch_def Let_def result_number_def sess_run_def
        minibatch_request_def py_index_def fetch_value_def chemical_accuracy_def)
  have iterator: "m_make_minibatch_iterator batches_model [example_batch 0 2, example_batch 0 1] t
                    = Inr [example_batch 0 2, example_batch 0 1]" for t
    by (simp add: batches_model_def)
  from validation_pass_requests [OF iterator validation]
    validation_pass_requests [OF iterator training] validation training
  show ?thesis
    by (simp add: recording_runtime_def example_batch_def example_params_def weighted_mean_def)
qed

subsection \<open>The training loop\<close>

lemma run_and_log_facts:
  assumes "run_and_log m rt clock ps train_data valid_data t0 ep st = Inr (entry, st1)"
  shows "log_to_save st1 = log_to_save st @ [entry]"
    and "log_file st1 = log_to_save st1"
    and "epoch entry = ep"
    and "valid_error_rate entry = fst (snd (snd (valid_results entry)))"
    and "best_val_acc st1 = best_val_acc st"
    and "best_val_acc_epoch st1 = best_val_acc_epoch st"
  using assms
  by (auto simp: run_and_log_def Let_def split: sum.splits prod.splits)

lemma train_loop_step:
  assumes "run_and_log m rt clock ps train_data valid_data t0 ep st = Inr (entry, st1)"
  shows "train_loop m rt clock ps train_data valid_data t0 (ep # eps) st =
       (if less_than_best (fst (snd (valid_results entry))) (best_val_acc st)
        then train_loop m rt clock ps train_data valid_data t0 eps
               (st1\<lparr>best_val_acc := Finite (fst (snd (valid_results entry))),
                    best_val_acc_epoch := ep\<rparr>)
        else if int ep - int (best_val_acc_epoch st) > patience ps
        then Inr (True, st1)
        else train_loop m rt clock ps train_data valid_data t0 eps st1)"
  using assms run_and_log_facts(5,6) [OF assms]
  by (simp add: Let_def)


lemma train_loop_entries:
  assumes "train_loop m rt clock ps train_data valid_data t0 eps st = Inr (b, st')"
    and "\<And>e. e \<in> set (log_to_save st) \<Longrightarrow> valid_error_rate e = fst (snd (snd (valid_results e)))"
    and "e \<in> set (log_to_save st')"
  shows "valid_error_rate e = fst (snd (snd (valid_results e)))"
  using assms
proof (induction eps arbitrary: st)
  case Nil
  then show ?case by simp
next
  case (Cons ep eps)
  from Cons.prems(1) obtain entry st1 where
    step: "run_and_log m rt clock ps train_data valid_data t0 ep st = Inr (entry, st1)"
    by (auto split: sum.splits)
  note facts = run_and_log_facts [OF step]
  let ?v = "fst (snd (valid_results entry))"
  have inv1: "\<And>x. x \<in> set (log_to_save st1) \<Longrightarrow>
                valid_error_rate x = fst (snd (snd (valid_results x)))"
    using facts(1,4) Cons.prems(2) by auto
  consider (better) "less_than_best ?v (best_val_acc st)"
    | (stop) "\<not> less_than_best ?v (best_val_acc st)"
        "int ep - int (best_val_acc_epoch st) > patience ps"
    | (go) "\<not> less_than_best ?v (best_val_acc st)"
        "\<not> int ep - int (best_val_acc_epoch st) > patience ps"
    by blast
  then show ?case
  proof cases
    case better
    with Cons.prems(1) step facts(5,6)
    have run: "train_loop m rt clock ps train_data valid_data t0 eps
            (st1\<lparr>best_val_acc := Finite ?v, best_val_acc_epoch := ep\<rparr>) = Inr (b, st')"
      by (simp add: Let_def)
    show ?thesis
      by (rule Cons.IH [OF run _ Cons.prems(3)]) (simp add: inv1)
  next
    case stop
    with Cons.prems(1) step facts(5,6) have "st' = st1"
      by (simp add: Let_def)
    with inv1 Cons.prems(3) show ?thesis by simp
  next
    case go
    with Cons.prems(1) step facts(5,6)
    have run: "train_loop m rt clock ps train_data valid_data t0 eps st1 = Inr (b, st')"
      by (simp add: Let_def)
    show ?thesis
      by (rule Cons.IH [OF run _ Cons.prems(3)]) (simp add: inv1)
  qed
qed

lemma counting_run_epoch:
  assumes "task_id ps = 0" and "feed_num_graphs b = 1"
  shows "run_epoch batches_model counting_runtime tick_clock ps (s, n) [b] t =
     Inr ((0, accuracy_value counting_runtime s b,
           accuracy_value counting_runtime s b / (66513725 / 1000000000), 1),
          (if t then Suc s else s, n + 2))"
  using assms
  by (simp add: run_epoch_def batches_model_def tick_clock_def
        Let_def result_number_def sess_run_def
        minibatch_request_def py_index_def fetch_value_def chemical_accuracy_def
        counting_runtime_def)

lemma counting_iteration:
  assumes "task_id ps = 0" and "feed_num_graphs b = 1"
  shows "\<exists>entry st1.
           run_and_log batches_model counting_runtime tick_clock ps [b] [b] t0 ep st
             = Inr (entry, st1)
           \<and> fst (snd (valid_results entry))
               = accuracy_value counting_runtime (Suc (fst (world st))) b
           \<and> fst (world st1) = Suc (fst (world st))"
proof -
  obtain s n where w: "world st = (s, n)" by (cases "world st")
  show ?thesis
    unfolding run_and_log_def w
    by (simp add: counting_run_epoch [OF assms] Let_def)
qed

lemma range_1_8: "[1..<8] = [1, 2, 3, 4, 5, 6, 7::nat]"
  by (simp add: upt_rec)

lemma counting_accuracy:
  "accuracy_value counting_runtime 1 b = 5"
  "accuracy_value counting_runtime 2 b = 4"
  "accuracy_value counting_runtime 3 b = 6"
  "accuracy_value counting_runtime 4 b = 7"
  "accuracy_value counting_runtime 5 b = 8"
  by (simp_all add: counting_runtime_def)

lemma example_train:
  "\<exists>st'. train batches_model counting_runtime tick_clock example_params
            [example_batch 0 1] [example_batch 0 1] 0 = Inr (True, st')
         \<and> map epoch (log_to_save st') = [1, 2, 3, 4, 5]
         \<and> map (\<lambda>e. fst (snd (valid_results e))) (log_to_save st') = [5, 4, 6, 7, 8]
         \<and> best_val_acc st' = Finite 4
         \<and> best_val_acc_epoch st' = 2"
proof -
  define b where "b = example_batch 0 1"
  define ps where "ps = example_params"
  define loop where
    "loop = train_loop batches_model counting_runtime tick_clock ps [b] [b] (tick_clock 0)"
  define s0 :: "nat train_state" where
    "s0 = \<lparr>world = (0, 1), log_to_save = [], log_file = [],
            best_val_acc = PosInf, best_val_acc_epoch = 0\<rparr>"
  have task: "task_id ps = 0" and pat: "patience ps = 2" and n: "num_epochs ps = 8"
    by (simp_all add: ps_def example_params_def)
  have one: "feed_num_graphs b = 1" by (simp add: b_def example_batch_def)
  note iter = counting_iteration [OF task one, of "tick_clock 0"]
  note step = train_loop_step [of batches_model counting_runtime tick_clock ps "[b]" "[b]"
      "tick_clock 0", folded loop_def]

  have "\<exists>e t. run_and_log batches_model counting_runtime tick_clock ps [b] [b] (tick_clock 0) 1 s0 = Inr (e, t)
            \<and> fst (snd (valid_results e)) = 5 \<and> fst (world t) = 1"
    using iter [of 1 s0] counting_accuracy(1) [of b] by (simp add: s0_def eval_nat_numeral)
  then obtain e1 t1 where
    r1: "run_and_log batches_model counting_runtime tick_clock ps [b] [b] (tick_clock 0) 1 s0 = Inr (e1, t1)"
    and v1: "fst (snd (valid_results e1)) = 5" and w1: "fst (world t1) = 1"
    by blast
  note f1 = run_and_log_facts [OF r1]
  define s1 where "s1 = t1\<lparr>best_val_acc := Finite 5, best_val_acc_epoch := 1\<rparr>"
  have l1: "loop [1, 2, 3, 4, 5, 6, 7] s0 = loop [2, 3, 4, 5, 6, 7] s1"
    using step [OF r1, of "[2, 3, 4, 5, 6, 7]"] v1 by (simp add: s0_def s1_def)

  have "\<exists>e t. run_and_log batches_model counting_runtime tick_clock ps [b] [b] (tick_clock 0) 2 s1 = Inr (e, t)
            \<and> fst (snd (valid_results e)) = 4 \<and> fst (world t) = 2"
    using iter [of 2 s1] counting_accuracy(2) [of b] by (simp add: s1_def w1 eval_nat_numeral)
  then obtain e2 t2 where
    r2: "run_and_log batches_model counting_runtime tick_clock ps [b] [b] (tick_clock 0) 2 s1 = Inr (e2, t2)"
    and v2: "fst (snd (valid_results e2)) = 4" and w2: "fst (world t2) = 2"
    by blast
  note f2 = run_and_log_facts [OF r2]
  define s2 where "s2 = t2\<lparr>best_val_acc := Finite 4, best_val_acc_epoch := 2\<rparr>"
  have l2: "loop [2, 3, 4, 5, 6, 7] s1 = loop [3, 4, 5, 6, 7] s2"
    using step [OF r2, of "[3, 4, 5, 6, 7]"] v2 by (simp add: s1_def s2_def)

  have "\<exists>e t. run_and_log batches_model counting_runtime tick_clock ps [b] [b] (tick_clock 0) 3 s2 = Inr (e, t)
            \<and> fst (snd (valid_results e)) = 6 \<and> fst (world t) = 3"
    using iter [of 3 s2] counting_accuracy(3) [of b] by (simp add: s2_def w2 eval_nat_numeral)
  then obtain e3 t3 where
    r3: "run_and_log batches_model counting_runtime tick_clock ps [b] [b] (tick_clock 0) 3 s2 = Inr (e3, t3)"
    and v3: "fst (snd (valid_results e3)) = 6" and w3: "fst (world t3) = 3"
    by blast
  note f3 = run_and_log_facts [OF r3]
  have b3: "best_val_acc t3 = Finite 4" "best_val_acc_epoch t3 = 2"
    using f3(5,6) by (simp_all add: s2_def)
  have l3: "loop [3, 4, 5, 6, 7] s2 = loop [4, 5, 6, 7] t3"
    using step [OF r3, of "[4, 5, 6, 7]"] v3 pat by (simp add: s2_def)

  have "\<exists>e t. run_and_log batches_model counting_runtime tick_clock ps [b] [b] (tick_clock 0) 4 t3 = Inr (e, t)
            \<and> fst (snd (valid_results e)) = 7 \<and> fst (world t) = 4"
    using iter [of 4 t3] counting_accuracy(4) [of b] by (simp add: w3 eval_nat_numeral)
  then obtain e4 t4 where
    r4: "run_and_log batches_model counting_runtime tick_clock ps [b] [b] (tick_clock 0) 4 t3 = Inr (e4, t4)"
    and v4: "fst (snd (valid_results e4)) = 7" and w4: "fst (world t4) = 4"
    by blast
  note f4 = run_and_log_facts [OF r4]
  have b4: "best_val_acc t4 = Finite 4" "best_val_acc_epoch t4 = 2"
    using f4(5,6) b3 by simp_all
  have l4: "loop [4, 5, 6, 7] t3 = loop [5, 6, 7] t4"
    using step [OF r4, of "[5, 6, 7]"] v4 pat b3 by simp

  have "\<exists>e t. run_and_log batches_model counting_runtime tick_clock ps [b] [b] (tick_clock 0) 5 t4 = Inr (e, t)
            \<and> fst (snd (valid_results e)) = 8 \<and> fst (world t) = 5"
    using iter [of 5 t4] counting_accuracy(5) [of b] by (simp add: w4 eval_nat_numeral)
  then obtain e5 t5 where
    r5: "run_and_log batches_model counting_runtime tick_clock ps [b] [b] (tick_clock 0) 5 t4 = Inr (e5, t5)"
    and v5: "fst (snd (valid_results e5)) = 8" and w5: "fst (world t5) = 5"
    by blast
  note f5 = run_and_log_facts [OF r5]
  have b5: "best_val_acc t5 = Finite 4" "best_val_acc_epoch t5 = 2"
    using f5(5,6) b4 by simp_all
  have l5: "loop [5, 6, 7] t4 = Inr (True, t5)"
    using step [OF r5, of "[6, 7]"] v5 pat b4 by simp

  have log: "log_to_save t5 = [e1, e2, e3, e4, e5]"
    using f1(1) f2(1) f3(1) f4(1) f5(1) by (simp add: s0_def s1_def s2_def)
  have run: "train batches_model counting_runtime tick_clock ps [b] [b] 0 = Inr (True, t5)"
    unfolding train_def n range_1_8 using l1 l2 l3 l4 l5
    by (simp add: loop_def s0_def)
  have eps: "map epoch (log_to_save t5) = [1, 2, 3, 4, 5]"
    using log f1(3) f2(3) f3(3) f4(3) f5(3) by simp
  have vals: "map (\<lambda>e. fst (snd (valid_results e))) (log_to_save t5) = [5, 4, 6, 7, 8]"
    using log v1 v2 v3 v4 v5 by simp
  show ?thesis
    using run eps vals b5 unfolding b_def ps_def
    by (intro exI [of _ t5] conjI)
qed



text \<open>
  C1: one iteration of the loop of \<open>train\<close>. After the two passes of epoch \<open>ep\<close>
  and the writing of the log: if the validation accuracy is strictly lower than the
  best so far, it becomes the best, \<open>ep\<close> the best epoch, and the loop goes on;
  otherwise, if \<open>ep - best_val_acc_epoch > patience\<close>, the loop is left by \<open>break\<close>;
  otherwise the loop goes on unchanged. In particular a run whose validation
  accuracies are 5, 4, 6, 7, 8, with patience 2 and \<open>num_epochs = 8\<close>, records
  the best value 4 at epoch 2 and stops after epoch 5.
\<close>

theorem early_stopping_policy:
  "(run_and_log m rt clock ps train_data valid_data t0 ep st = Inr (entry, st1) \<longrightarrow>
      train_loop m rt clock ps train_data valid_data t0 (ep # eps) st =
        (if less_than_best (fst (snd (valid_results entry))) (best_val_acc st)
         then train_loop m rt clock ps train_data valid_data t0 eps
                (st1\<lparr>best_val_acc := Finite (fst (snd (valid_results entry))),
                     best_val_acc_epoch := ep\<rparr>)
         else if int ep - int (best_val_acc_epoch st) > patience ps
         then Inr (True, st1)
         else train_loop m rt clock ps train_data valid_data t0 eps st1))
   \<and> (\<exists>st'. train batches_model counting_runtime tick_clock example_params
              [example_batch 0 1] [example_batch 0 1] 0 = Inr (True, st')
          \<and> patience example_params = 2
          \<and> map (\<lambda>e. fst (snd (valid_results e))) (log_to_save st') = [5, 4, 6, 7, 8]
          \<and> map epoch (log_to_save st') = [1, 2, 3, 4, 5]
          \<and> best_val_acc st' = Finite 4
          \<and> best_val_acc_epoch st' = 2)"
proof (intro conjI impI)
  assume "run_and_log m rt clock ps train_data valid_data t0 ep st = Inr (entry, st1)"
  then show "train_loop m rt clock ps train_data valid_data t0 (ep # eps) st =
        (if less_than_best (fst (snd (valid_results entry))) (best_val_acc st)
         then train_loop m rt clock ps train_data valid_data t0 eps
                (st1\<lparr>best_val_acc := Finite (fst (snd (valid_results entry))),
                     best_val_acc_epoch := ep\<rparr>)
         else if int ep - int (best_val_acc_epoch st) > patience ps
         then Inr (True, st1)
         else train_loop m rt clock ps train_data valid_data t0 eps st1)"
    by (rule train_loop_step)
next
  from example_train obtain st' where
    "train batches_model counting_runtime tick_clock example_params
            [example_batch 0 1] [example_batch 0 1] 0 = Inr (True, st')"
    "map epoch (log_to_save st') = [1, 2, 3, 4, 5]"
    "map (\<lambda>e. fst (snd (valid_results e))) (log_to_save st') = [5, 4, 6, 7, 8]"
    "best_val_acc st' = Finite 4" "best_val_acc_epoch st' = 2"
    by auto
  moreover have "patience example_params = 2" by (simp add: example_params_def)
  ultimately show "\<exists>st'. train batches_model counting_runtime tick_clock example_params
              [example_batch 0 1] [example_batch 0 1] 0 = Inr (True, st')
          \<and> patience example_params = 2
          \<and> map (\<lambda>e. fst (snd (valid_results e))) (log_to_save st') = [5, 4, 6, 7, 8]
          \<and> map epoch (log_to_save st') = [1, 2, 3, 4, 5]
          \<and> best_val_acc st' = Finite 4
          \<and> best_val_acc_epoch st' = 2"
    by (intro exI [of _ st'] conjI)
qed

theorem early_stopping_policy_witness:
  "\<exists>entry st1.
     run_and_log batches_model counting_runtime tick_clock example_params
         [example_batch 0 1] [example_batch 0 1] 0 1
         \<lparr>world = (0, 1), log_to_save = [], log_file = [],
          best_val_acc = PosInf, best_val_acc_epoch = 0\<rparr> = Inr (entry, st1)
     \<and> fst (snd (valid_results entry)) = 5
     \<and> train_loop batches_model counting_runtime tick_clock example_params
         [example_batch 0 1] [example_batch 0 1] 0 [1]
         \<lparr>world = (0, 1), log_to_save = [], log_file = [],
          best_val_acc = PosInf, best_val_acc_epoch = 0\<rparr>
       = Inr (False, st1\<lparr>best_val_acc := Finite 5, best_val_acc_epoch := 1\<rparr>)"
proof -
  have task: "task_id example_params = 0" by (simp add: example_params_def)
  have one: "feed_num_graphs (example_batch 0 1) = 1" by (simp add: example_batch_def)
  let ?s0 = "\<lparr>world = (0::nat, 1::nat), log_to_save = [], log_file = [],
          best_val_acc = PosInf, best_val_acc_epoch = 0\<rparr>"
  have "\<exists>e t. run_and_log batches_model counting_runtime tick_clock example_params
         [example_batch 0 1] [example_batch 0 1] 0 1 ?s0 = Inr (e, t)
         \<and> fst (snd (valid_results e)) = 5"
    using counting_iteration [OF task one, of 0 1 ?s0] counting_accuracy(1) [of "example_batch 0 1"]
    by fastforce
  then obtain entry st1 where
    r: "run_and_log batches_model counting_runtime tick_clock example_params
         [example_batch 0 1] [example_batch 0 1] 0 1 ?s0 = Inr (entry, st1)"
    and v: "fst (snd (valid_results entry)) = 5"
    by auto
  from early_stopping_policy [THEN conjunct1, rule_format, OF r, of "[]"] v
  have "train_loop batches_model counting_runtime tick_clock example_params
         [example_batch 0 1] [example_batch 0 1] 0 [1] ?s0
       = Inr (False, st1\<lparr>best_val_acc := Finite 5, best_val_acc_epoch := 1\<rparr>)"
    by simp
  with r v show ?thesis by (intro exI [of _ entry] exI [of _ st1] conjI)
qed



text \<open>
  C10: in every entry of the log that \<open>train\<close> returns with, the field
  \<open>valid_error_rate\<close> is the third component of the entry's own \<open>valid_results\<close>.
\<close>

theorem log_entry_valid_error_rate:
  assumes "train m rt clock ps train_data valid_data sess = Inr (b, st')"
  shows "\<forall>e \<in> set (log_to_save st'). valid_error_rate e = fst (snd (snd (valid_results e)))"
proof
  fix e assume "e \<in> set (log_to_save st')"
  then show "valid_error_rate e = fst (snd (snd (valid_results e)))"
    using train_loop_entries [OF assms [unfolded train_def], of e] by simp
qed

theorem log_entry_valid_error_rate_witness:
  "\<exists>st'. train batches_model counting_runtime tick_clock example_params
            [example_batch 0 1] [example_batch 0 1] 0 = Inr (True, st')
        \<and> length (log_to_save st') = 5
        \<and> map valid_error_rate (log_to_save st')
            = map (\<lambda>e. fst (snd (snd (valid_results e)))) (log_to_save st')"
proof -
  from example_train obtain st' where
    run: "train batches_model counting_runtime tick_clock example_params
            [example_batch 0 1] [example_batch 0 1] 0 = Inr (True, st')"
    and eps: "map epoch (log_to_save st') = [1, 2, 3, 4, 5]"
    by auto
  have len: "length (log_to_save st') = 5"
    using arg_cong [OF eps, of length] by simp
  from log_entry_valid_error_rate [OF run]
  have "map valid_error_rate (log_to_save st')
            = map (\<lambda>e. fst (snd (snd (valid_results e)))) (log_to_save st')"
    by simp
  with run len show ?thesis by (intro exI [of _ st'] conjI)
qed

subsection \<open>Order of the minibatches through the queue\<close>

lemma channel_inv_start: "channel_inv xs (start xs)"
  by (simp add: channel_inv_def start_def)

lemma channel_inv_producer:
  assumes "channel_inv xs c"
  shows "channel_inv xs (turn n Producer c)"
proof (cases "length (queue c) < n")
  case False
  with assms show ?thesis by simp
next
  case room: True
  show ?thesis
  proof (cases "finished c \<or> sentinel_sent c")
    case True
    with assms room show ?thesis
      by (auto simp: channel_inv_def split: list.splits if_splits)
  next
    case False
    with assms obtain q where q: "queue c = map Some q" "received c @ q @ pending c = xs"
      by (auto simp: channel_inv_def)
    show ?thesis
    proof (cases "pending c")
      case Nil
      with False room q show ?thesis
        by (auto simp: channel_inv_def)
    next
      case (Cons x rest)
      with False room q have "queue (turn n Producer c) = map Some (q @ [x])"
        "received (turn n Producer c) @ (q @ [x]) @ pending (turn n Producer c) = xs"
        "\<not> finished (turn n Producer c)" "\<not> sentinel_sent (turn n Producer c)"
        by auto
      then show ?thesis
        unfolding channel_inv_def by (metis (full_types))
    qed
  qed
qed

lemma channel_inv_consumer:
  assumes "channel_inv xs c"
  shows "channel_inv xs (turn n Consumer c)"
proof (cases "finished c")
  case True
  with assms show ?thesis by simp
next
  case nf: False
  show ?thesis
  proof (cases "sentinel_sent c")
    case True
    with assms nf obtain q where q: "pending c = []" "queue c = map Some q @ [None]"
      "received c @ q = xs"
      by (auto simp: channel_inv_def)
    show ?thesis
    proof (cases q)
      case Nil
      with q nf True show ?thesis by (simp add: channel_inv_def)
    next
      case (Cons x q')
      with q nf True show ?thesis by (simp add: channel_inv_def)
    qed
  next
    case False
    with assms nf obtain q where q: "queue c = map Some q" "received c @ q @ pending c = xs"
      by (auto simp: channel_inv_def)
    show ?thesis
    proof (cases q)
      case Nil
      with q nf False show ?thesis by (simp add: channel_inv_def)
    next
      case (Cons x q')
      with q nf False show ?thesis by (simp add: channel_inv_def)
    qed
  qed
qed

lemma channel_inv_turn: "channel_inv xs c \<Longrightarrow> channel_inv xs (turn n a c)"
  by (cases a) (simp_all only: channel_inv_producer channel_inv_consumer)

lemma channel_inv_fold: "channel_inv xs c \<Longrightarrow> channel_inv xs (fold (turn n) schedule c)"
  by (induction schedule arbitrary: c) (simp_all add: channel_inv_turn)

lemma channel_inv_run: "channel_inv xs (threaded_run n schedule (start xs))"
  unfolding threaded_run_def by (rule channel_inv_fold [OF channel_inv_start])

lemma channel_inv_prefix:
  assumes "channel_inv xs c"
  shows "\<exists>rest. xs = received c @ rest"
  using assms by (auto simp: channel_inv_def split: if_splits)

lemma channel_inv_progress:
  assumes "channel_inv xs c" "\<not> finished c" "0 < n"
  shows "turn n Producer c \<noteq> c \<or> turn n Consumer c \<noteq> c"
proof (cases "queue c")
  case Nil
  with assms have ns: "\<not> sentinel_sent c"
    by (auto simp: channel_inv_def)
  have "queue (turn n Producer c) \<noteq> queue c"
    using Nil ns assms(3) by (simp split: list.splits)
  then have "turn n Producer c \<noteq> c" by metis
  then show ?thesis by (rule disjI1)
next
  case (Cons y q)
  have "length (queue (turn n Consumer c)) \<noteq> length (queue c)"
    using Cons assms(2) by (simp split: option.splits)
  then have "turn n Consumer c \<noteq> c" by metis
  then show ?thesis by (rule disjI2)
qed

text \<open>
  C9: for every sequence \<open>xs\<close> that the model's iterator produces, every capacity
  of the queue and every schedule of the two threads, what the consumer has
  received is an initial segment of \<open>xs\<close>, and once the consumer has seen the end of
  the stream it has received exactly \<open>xs\<close>, in the producer's order. The pass cannot
  get stuck before that: with a capacity above zero, as long as the consumer has
  not finished, the producer or the consumer can take a step.
\<close>

theorem threaded_iterator_order:
  "(\<exists>rest. xs = received (threaded_run max_queue_size schedule (start xs)) @ rest)
   \<and> (finished (threaded_run max_queue_size schedule (start xs))
        \<longrightarrow> received (threaded_run max_queue_size schedule (start xs)) = xs)
   \<and> (0 < max_queue_size \<and> \<not> finished (threaded_run max_queue_size schedule (start xs))
        \<longrightarrow> turn max_queue_size Producer (threaded_run max_queue_size schedule (start xs))
               \<noteq> threaded_run max_queue_size schedule (start xs)
            \<or> turn max_queue_size Consumer (threaded_run max_queue_size schedule (start xs))
               \<noteq> threaded_run max_queue_size schedule (start xs))"
proof -
  let ?c = "threaded_run max_queue_size schedule (start xs)"
  have inv: "channel_inv xs ?c" by (rule channel_inv_run)
  have "finished ?c \<longrightarrow> received ?c = xs"
    using inv by (simp add: channel_inv_def)
  with channel_inv_prefix [OF inv] channel_inv_progress [OF inv]
  show ?thesis by blast
qed

text \<open>The example of the specification: \<open>[b1, b2, b3]\<close> through the queue of
  capacity 3 is consumed as \<open>b1, b2, b3\<close>; and with the queue full the producer is
  suspended while the consumer can go on.\<close>

theorem threaded_iterator_order_witness:
  "finished (threaded_run 3 [Producer, Producer, Producer, Producer, Consumer, Consumer,
                             Producer, Consumer, Consumer]
              (start [''b1'', ''b2'', ''b3'']))
   \<and> received (threaded_run 3 [Producer, Producer, Producer, Producer, Consumer, Consumer,
                               Producer, Consumer, Consumer]
                (start [''b1'', ''b2'', ''b3''])) = [''b1'', ''b2'', ''b3'']
   \<and> (0::nat) < 3
   \<and> \<not> finished (threaded_run 3 [Producer, Producer, Producer] (start [''b1'', ''b2'', ''b3'']))
   \<and> turn 3 Producer (threaded_run 3 [Producer, Producer, Producer] (start [''b1'', ''b2'', ''b3'']))
       = threaded_run 3 [Producer, Producer, Producer] (start [''b1'', ''b2'', ''b3''])
   \<and> turn 3 Consumer (threaded_run 3 [Producer, Producer, Producer] (start [''b1'', ''b2'', ''b3'']))
       \<noteq> threaded_run 3 [Producer, Producer, Producer] (start [''b1'', ''b2'', ''b3''])"
proof -
  have fin: "finished (threaded_run 3 [Producer, Producer, Producer, Producer, Consumer, Consumer,
                             Producer, Consumer, Consumer]
              (start [''b1'', ''b2'', ''b3'']))"
    by (simp add: threaded_run_def start_def)
  have nfin: "\<not> finished (threaded_run 3 [Producer, Producer, Producer] (start [''b1'', ''b2'', ''b3'']))"
    by (simp add: threaded_run_def start_def)
  have blocked: "turn 3 Producer (threaded_run 3 [Producer, Producer, Producer] (start [''b1'', ''b2'', ''b3'']))
       = threaded_run 3 [Producer, Producer, Producer] (start [''b1'', ''b2'', ''b3''])"
    by (simp add: threaded_run_def start_def)
  have pos: "(0::nat) < 3" by simp
  note ordered = threaded_iterator_order [of "[''b1'', ''b2'', ''b3'']" 3]
  have rec: "received (threaded_run 3 [Producer, Producer, Producer, Producer, Consumer, Consumer,
                               Producer, Consumer, Consumer]
                (start [''b1'', ''b2'', ''b3''])) = [''b1'', ''b2'', ''b3'']"
    using ordered [of "[Producer, Producer, Producer, Producer, Consumer, Consumer,
                               Producer, Consumer, Consumer]"] fin by blast
  have mv: "turn 3 Consumer (threaded_run 3 [Producer, Producer, Producer] (start [''b1'', ''b2'', ''b3'']))
       \<noteq> threaded_run 3 [Producer, Producer, Producer] (start [''b1'', ''b2'', ''b3''])"
    using ordered [of "[Producer, Producer, Producer]"] nfin blocked pos by blast
  from fin rec pos nfin blocked mv show ?thesis by (intro conjI)
qed

end
